theory Spec2Isabelle
  imports Main "HOL-Library.Word"
begin

unbundle bit_operations_syntax

section \<open>netcalc: the subnet calculator of \<^verbatim>\<open>netcalc.go\<close>\<close>

text \<open>
  The program reads one CIDR string, derives netmask, wildcard, network, broadcast,
  usable host range and host count, and prints nine name/value pairs. The embedding
  follows \<^verbatim>\<open>netcalc.go\<close> function by function. Go's \<^verbatim>\<open>byte\<close> is an
  8-bit word, \<^verbatim>\<open>net.IP\<close> and \<^verbatim>\<open>net.IPMask\<close> are byte slices (lists here, the
  nil slice being the empty list where a function returns a slice, and \<open>None\<close> where
  the code tests for nil), Go's \<^verbatim>\<open>int\<close> is the 64-bit signed integer of the usual
  targets and \<^verbatim>\<open>uint64\<close> a 64-bit word.
\<close>

type_synonym byte = "8 word"
type_synonym IP = "byte list"
type_synonym IPMask = "byte list"
type_synonym go_int = "64 word"
type_synonym uint64 = "64 word"

text \<open>
  What a Go call can end with besides its value: an \<^verbatim>\<open>error\<close> value (with the
  text that its \<^verbatim>\<open>Error()\<close> method returns) or a run-time panic.
\<close>

datatype error = Error string | Panic string

record ResultItem =
  Name :: string
  Value :: string

text \<open>\<^verbatim>\<open>net.IPNet\<close>: the masked address and the mask.\<close>

record IPNet =
  IPNet_IP :: IP
  IPNet_Mask :: IPMask

subsection \<open>The standard library functions that the program calls\<close>

text \<open>
  \<^verbatim>\<open>netcalc.go\<close> calls \<^verbatim>\<open>strconv.Atoi\<close>, \<^verbatim>\<open>fmt.Sprintf\<close>, \<^verbatim>\<open>strings.Contains\<close>,
  \<^verbatim>\<open>strings.Split\<close> and, from package \<^verbatim>\<open>net\<close>, \<^verbatim>\<open>ParseCIDR\<close>, \<^verbatim>\<open>IP.To4\<close>,
  \<^verbatim>\<open>IP.String\<close> and \<^verbatim>\<open>IPMask.Size\<close>. They are not part of the repository; the
  definitions of this subsection follow the Go standard library (package \<^verbatim>\<open>net\<close> as in
  Go 1.17 to 1.21: \<^verbatim>\<open>dtoi\<close>, \<^verbatim>\<open>xtoi\<close>, \<^verbatim>\<open>parseIPv4\<close>, \<^verbatim>\<open>parseIPv6\<close>, \<^verbatim>\<open>CIDRMask\<close>,
  \<^verbatim>\<open>IP.Mask\<close>, \<^verbatim>\<open>simpleMaskLength\<close>), loop by loop. A Go string is a byte sequence,
  as an Isabelle \<open>string\<close> is. Inside the library's own parsers an \<^verbatim>\<open>int\<close> stays far
  below the word size (\<^verbatim>\<open>dtoi\<close> and \<^verbatim>\<open>xtoi\<close> stop at \<^verbatim>\<open>0xFFFFFF\<close>), so it is a
  natural number there.
\<close>

definition is_digit :: "char \<Rightarrow> bool" where
  "is_digit c = (48 \<le> (of_char c :: nat) \<and> (of_char c :: nat) \<le> 57)"

definition digit_val :: "char \<Rightarrow> nat" where
  "digit_val c = of_char c - 48"

definition big :: nat where
  "big = 0xFFFFFF"

text \<open>
  \<^verbatim>\<open>dtoi(s)\<close>: the decimal number at the start of \<^verbatim>\<open>s\<close>, the number of characters
  read, and whether there was a number. The loop arguments are the number so far, the
  index \<^verbatim>\<open>i\<close> and the rest \<^verbatim>\<open>s[i:]\<close> of the string.
\<close>

fun dtoi_loop :: "nat \<Rightarrow> nat \<Rightarrow> string \<Rightarrow> nat \<times> nat \<times> bool" where
  "dtoi_loop n i [] = (if i = 0 then (0, 0, False) else (n, i, True))"
| "dtoi_loop n i (c # cs) =
     (if is_digit c
      then (let n' = n * 10 + digit_val c
            in if n' \<ge> big then (big, i, False) else dtoi_loop n' (i + 1) cs)
      else if i = 0 then (0, 0, False) else (n, i, True))"

definition dtoi :: "string \<Rightarrow> nat \<times> nat \<times> bool" where
  "dtoi s = dtoi_loop 0 0 s"

text \<open>\<^verbatim>\<open>xtoi(s)\<close>: the same for a hexadecimal number.\<close>

definition hex_val :: "char \<Rightarrow> nat option" where
  "hex_val c =
     (let k = (of_char c :: nat)
      in if 48 \<le> k \<and> k \<le> 57 then Some (k - 48)
         else if 97 \<le> k \<and> k \<le> 102 then Some (k - 97 + 10)
         else if 65 \<le> k \<and> k \<le> 70 then Some (k - 65 + 10)
         else None)"

fun xtoi_loop :: "nat \<Rightarrow> nat \<Rightarrow> string \<Rightarrow> nat \<times> nat \<times> bool" where
  "xtoi_loop n i [] = (if i = 0 then (0, i, False) else (n, i, True))"
| "xtoi_loop n i (c # cs) =
     (case hex_val c of
        None \<Rightarrow> (if i = 0 then (0, i, False) else (n, i, True))
      | Some d \<Rightarrow>
          (let n' = n * 16 + d
           in if n' \<ge> big then (0, i, False) else xtoi_loop n' (i + 1) cs))"

definition xtoi :: "string \<Rightarrow> nat \<times> nat \<times> bool" where
  "xtoi s = xtoi_loop 0 0 s"

text \<open>
  \<^verbatim>\<open>IPv4(a, b, c, d)\<close> is the 16-byte form of an IPv4 address, and \<^verbatim>\<open>parseIPv4\<close>
  reads four decimal fields separated by dots, each at most 255 and without a leading
  zero. A nil slice is the empty list: every slice these functions return is either
  nil or has 4 or 16 bytes.
\<close>

definition v4InV6Prefix :: "byte list" where
  "v4InV6Prefix = [0, 0, 0, 0, 0, 0, 0, 0, 0, 0, 0xff, 0xff]"

definition IPv4 :: "byte \<Rightarrow> byte \<Rightarrow> byte \<Rightarrow> byte \<Rightarrow> IP" where
  "IPv4 a b c d = v4InV6Prefix @ [a, b, c, d]"

function parseIPv4_loop :: "nat \<Rightarrow> string \<Rightarrow> byte list \<Rightarrow> IP" where
  "parseIPv4_loop i s p =
     (if i < 4 then
        (if s = [] then []
         else if i > 0 \<and> hd s \<noteq> CHR ''.'' then []
         else (let s1 = (if i > 0 then tl s else s)
               in case dtoi s1 of (n, c, ok) \<Rightarrow>
                    if \<not> ok \<or> n > 0xFF then []
                    else if c > 1 \<and> hd s1 = CHR ''0'' then []
                    else parseIPv4_loop (i + 1) (drop c s1) (p[i := of_nat n])))
      else if s \<noteq> [] then []
      else IPv4 (p ! 0) (p ! 1) (p ! 2) (p ! 3))"
  by pat_completeness auto
termination
  by (relation "measure (\<lambda>(i, s, p). 4 - i)") auto

definition parseIPv4 :: "string \<Rightarrow> IP" where
  "parseIPv4 s = parseIPv4_loop 0 s [0, 0, 0, 0]"

text \<open>
  \<^verbatim>\<open>parseIPv6\<close>: groups of hexadecimal digits separated by colons, at most one
  \<^verbatim>\<open>::\<close>, possibly a trailing dotted IPv4 address. The loop returns \<open>None\<close> where
  the code returns nil from inside the loop, and otherwise the variables
  \<^verbatim>\<open>s\<close>, \<^verbatim>\<open>i\<close>, \<^verbatim>\<open>ip\<close> and \<^verbatim>\<open>ellipsis\<close> as they are when the loop is left.
\<close>

function parseIPv6_loop ::
  "string \<Rightarrow> nat \<Rightarrow> IP \<Rightarrow> int \<Rightarrow> (string \<times> nat \<times> IP \<times> int) option" where
  "parseIPv6_loop s i ip ellipsis =
     (if i < 16 then
        (case xtoi s of (n, c, ok) \<Rightarrow>
           if \<not> ok \<or> n > 0xFFFF then None
           else if c < length s \<and> s ! c = CHR ''.'' then
             (if ellipsis < 0 \<and> i \<noteq> 12 then None
              else if i + 4 > 16 then None
              else (let ip4 = parseIPv4 s
                    in if ip4 = [] then None
                       else Some ([], i + 4,
                              ip[i := ip4 ! 12, i + 1 := ip4 ! 13,
                                 i + 2 := ip4 ! 14, i + 3 := ip4 ! 15],
                              ellipsis)))
           else
             (let ip1 = ip[i := of_nat (n div 256), i + 1 := of_nat n];
                  i1 = i + 2;
                  s1 = drop c s
              in if s1 = [] then Some (s1, i1, ip1, ellipsis)
                 else if hd s1 \<noteq> CHR '':'' \<or> length s1 = 1 then None
                 else (let s2 = tl s1
                       in if hd s2 = CHR '':'' then
                            (if ellipsis \<ge> 0 then None
                             else (let s3 = tl s2
                                   in if s3 = [] then Some (s3, i1, ip1, int i1)
                                      else parseIPv6_loop s3 i1 ip1 (int i1)))
                          else parseIPv6_loop s2 i1 ip1 ellipsis)))
      else Some (s, i, ip, ellipsis))"
  by pat_completeness auto
termination
  by (relation "measure (\<lambda>(s, i, ip, ellipsis). 16 - i)") auto

definition parseIPv6 :: "string \<Rightarrow> IP" where
  "parseIPv6 s0 =
     (let ip = replicate 16 0;
          lead = (length s0 \<ge> 2 \<and> s0 ! 0 = CHR '':'' \<and> s0 ! 1 = CHR '':'');
          ellipsis = (if lead then 0 else - 1);
          s = (if lead then drop 2 s0 else s0)
      in if lead \<and> s = [] then ip
         else (case parseIPv6_loop s 0 ip ellipsis of
                 None \<Rightarrow> []
               | Some (s', i, ip', ellipsis') \<Rightarrow>
                   if s' \<noteq> [] then []
                   else if i < 16 then
                     (if ellipsis' < 0 then []
                      else (let n = 16 - i;
                                e = nat ellipsis';
                                ip2 = fold (\<lambda>j ip. ip[j + n := ip ! j]) (rev [e..<i]) ip';
                                ip3 = fold (\<lambda>j ip. ip[j := 0]) (rev [e..<e + n]) ip2
                            in ip3))
                   else if ellipsis' \<ge> 0 then []
                   else ip'))"

text \<open>
  \<^verbatim>\<open>CIDRMask(ones, bits)\<close>: \<^verbatim>\<open>ones\<close> one-bits followed by zero-bits, in
  \<^verbatim>\<open>bits / 8\<close> bytes. The loop arguments are the number of bytes still to write and
  the number \<^verbatim>\<open>n\<close> of one-bits still to place.
\<close>

fun CIDRMask_loop :: "nat \<Rightarrow> nat \<Rightarrow> IPMask" where
  "CIDRMask_loop 0 n = []"
| "CIDRMask_loop (Suc k) n =
     (if n \<ge> 8 then 0xff # CIDRMask_loop k (n - 8)
      else NOT (drop_bit n 0xff) # CIDRMask_loop k 0)"

definition CIDRMask :: "nat \<Rightarrow> nat \<Rightarrow> IPMask" where
  "CIDRMask ones bits =
     (if bits \<noteq> 32 \<and> bits \<noteq> 128 then []
      else if ones > bits then []
      else CIDRMask_loop (bits div 8) ones)"

text \<open>\<^verbatim>\<open>ip.Mask(mask)\<close>: the bytes of \<^verbatim>\<open>ip\<close> and \<^verbatim>\<open>mask\<close> and-ed, nil when the lengths differ.\<close>

definition allFF :: "byte list \<Rightarrow> bool" where
  "allFF b = list_all (\<lambda>c. c = 0xff) b"

definition IP_Mask :: "IP \<Rightarrow> IPMask \<Rightarrow> IP" where
  "IP_Mask ip0 mask0 =
     (let mask = (if length mask0 = 16 \<and> length ip0 = 4 \<and> allFF (take 12 mask0)
                  then drop 12 mask0 else mask0);
          ip = (if length mask = 4 \<and> length ip0 = 16 \<and> take 12 ip0 = v4InV6Prefix
                then drop 12 ip0 else ip0);
          n = length ip
      in if n \<noteq> length mask then []
         else map (\<lambda>i. ip ! i AND mask ! i) [0..<n])"

text \<open>
  \<^verbatim>\<open>net.ParseCIDR(s)\<close>: the address and the network of \<^verbatim>\<open>address/prefix\<close>, or an
  error whose text is \<^verbatim>\<open>invalid CIDR address: \<close> followed by \<^verbatim>\<open>s\<close>. The string is cut
  at its first slash.
\<close>

definition net_ParseCIDR :: "string \<Rightarrow> error + (IP \<times> IPNet)" where
  "net_ParseCIDR s =
     (let i = length (takeWhile (\<lambda>c. c \<noteq> CHR ''/'') s)
      in if i = length s then Inl (Error (''invalid CIDR address: '' @ s))
         else (let addr = take i s;
                   mask = drop (i + 1) s;
                   ip4 = parseIPv4 addr;
                   iplen = (if ip4 = [] then 16 else 4);
                   ip = (if ip4 = [] then parseIPv6 addr else ip4)
               in case dtoi mask of (n, j, ok) \<Rightarrow>
                    if ip = [] \<or> \<not> ok \<or> j \<noteq> length mask \<or> n > 8 * iplen
                    then Inl (Error (''invalid CIDR address: '' @ s))
                    else (let m = CIDRMask n (8 * iplen)
                          in Inr (ip, \<lparr>IPNet_IP = IP_Mask ip m, IPNet_Mask = m\<rparr>))))"

text \<open>\<^verbatim>\<open>ip.To4()\<close>: the 4-byte form of an IPv4 address, nil for anything else.\<close>

definition To4 :: "IP \<Rightarrow> IP" where
  "To4 ip =
     (if length ip = 4 then ip
      else if length ip = 16 \<and> list_all (\<lambda>b. b = 0) (take 10 ip)
              \<and> ip ! 10 = 0xff \<and> ip ! 11 = 0xff
      then take 4 (drop 12 ip)
      else [])"

text \<open>
  \<^verbatim>\<open>mask.Size()\<close>: the number of leading one-bits and the number of bits, both 0 when
  the mask is not a run of ones followed by zeros. \<^verbatim>\<open>leading_ones\<close> is the inner loop
  \<^verbatim>\<open>for v&0x80 != 0 { n++; v <<= 1 }\<close> of \<^verbatim>\<open>simpleMaskLength\<close>.
\<close>

function leading_ones :: "nat \<Rightarrow> byte \<Rightarrow> nat \<times> byte" where
  "leading_ones n v =
     (if v AND 0x80 \<noteq> 0 then leading_ones (n + 1) (push_bit 1 v) else (n, v))"
  by pat_completeness auto
termination
proof (relation "measure (\<lambda>(n, v). unat v)")
  show "wf (measure (\<lambda>(n, v). unat v))" by simp
next
  fix n :: nat and v :: byte
  assume "v AND 0x80 \<noteq> 0"
  then have "v AND 2 ^ 7 \<noteq> 0" by simp
  then have "bit v 7" by (simp only: and_exp_eq_0_iff_not_bit) simp
  then have "bit (unat v) 7" by (simp add: bit_unsigned_iff)
  then have "odd (unat v div 2 ^ 7)" unfolding bit_iff_odd .
  then have lo: "128 \<le> unat v" by (cases "unat v < 128") auto
  have hi: "unat v < 256"
    using unsigned_less [of v, where 'a = nat] by simp
  have "unat (push_bit 1 v) = (2 * unat v) mod 256"
    by (simp add: unat_word_ariths mult.commute)
  also have "\<dots> = 2 * unat v - 256"
    using lo hi by (simp add: le_mod_geq)
  finally have "unat (push_bit 1 v) < unat v" using lo hi by linarith
  then show "((n + 1, push_bit 1 v), (n, v)) \<in> measure (\<lambda>(n, v). unat v)" by simp
qed

fun simpleMaskLength_loop :: "nat \<Rightarrow> byte list \<Rightarrow> int" where
  "simpleMaskLength_loop n [] = int n"
| "simpleMaskLength_loop n (v # rest) =
     (if v = 0xff then simpleMaskLength_loop (n + 8) rest
      else (case leading_ones n v of (n', v') \<Rightarrow>
              if v' \<noteq> 0 then - 1
              else if list_ex (\<lambda>b. b \<noteq> 0) rest then - 1
              else int n'))"

definition simpleMaskLength :: "IPMask \<Rightarrow> int" where
  "simpleMaskLength m = simpleMaskLength_loop 0 m"

definition IPMask_Size :: "IPMask \<Rightarrow> go_int \<times> go_int" where
  "IPMask_Size m =
     (let ones = simpleMaskLength m;
          bits = int (length m) * 8
      in if ones = - 1 then (0, 0) else (word_of_int ones, word_of_int bits))"

text \<open>
  Decimal text, as \<^verbatim>\<open>%d\<close> of \<^verbatim>\<open>fmt.Sprintf\<close> prints an \<^verbatim>\<open>int\<close> or a \<^verbatim>\<open>uint64\<close> and as
  \<^verbatim>\<open>IP.String\<close> prints a byte.
\<close>

definition digit_char :: "nat \<Rightarrow> char" where
  "digit_char d = ''0123456789'' ! d"

function decimal :: "nat \<Rightarrow> string" where
  "decimal n =
     (if n < 10 then [digit_char n]
      else decimal (n div 10) @ [digit_char (n mod 10)])"
  by pat_completeness auto
termination
  by (relation "measure (\<lambda>n. n)") auto

definition fmt_int :: "go_int \<Rightarrow> string" where
  "fmt_int i = (if i <s 0 then CHR ''-'' # decimal (nat (- sint i)) else decimal (nat (sint i)))"

definition fmt_uint64 :: "uint64 \<Rightarrow> string" where
  "fmt_uint64 u = decimal (unat u)"

text \<open>
  \<^verbatim>\<open>ip.String()\<close>: \<^verbatim>\<open><nil>\<close> for an empty slice and the dotted decimal form for a
  slice that \<^verbatim>\<open>To4\<close> accepts. \<^verbatim>\<open>calculate\<close> renders no other slice (lemma
  \<open>calculate_values_lengths\<close> below), and the colon-separated text of a 16-byte IPv6
  address is not modelled: any other slice gets the \<^verbatim>\<open>?\<close> form that the library uses
  for a slice of irregular length.
\<close>

definition hexString :: "byte list \<Rightarrow> string" where
  "hexString b =
     concat (map (\<lambda>x. [''0123456789abcdef'' ! (unat x div 16),
                        ''0123456789abcdef'' ! (unat x mod 16)]) b)"

definition IP_String :: "IP \<Rightarrow> string" where
  "IP_String ip =
     (if length ip = 0 then ''<nil>''
      else (let p4 = To4 ip
            in if length p4 = 4
               then decimal (unat (p4 ! 0)) @ ''.'' @ decimal (unat (p4 ! 1)) @ ''.''
                    @ decimal (unat (p4 ! 2)) @ ''.'' @ decimal (unat (p4 ! 3))
               else ''?'' @ hexString ip))"

text \<open>
  \<^verbatim>\<open>strconv.Atoi(s)\<close>: an optional sign and then decimal digits only, at least one;
  \<open>None\<close> stands for a non-nil error, which the library returns for any other
  string and for a number outside the range of \<^verbatim>\<open>int\<close>.
\<close>

definition dec_val :: "string \<Rightarrow> nat" where
  "dec_val ds = foldl (\<lambda>n c. n * 10 + digit_val c) 0 ds"

definition strconv_Atoi :: "string \<Rightarrow> go_int option" where
  "strconv_Atoi s =
     (let neg = (s \<noteq> [] \<and> hd s = CHR ''-'');
          ds = (if s \<noteq> [] \<and> (hd s = CHR ''-'' \<or> hd s = CHR ''+'') then tl s else s)
      in if ds = [] \<or> \<not> list_all is_digit ds then None
         else (let v = (if neg then - int (dec_val ds) else int (dec_val ds))
               in if v < - (2 ^ 63) \<or> 2 ^ 63 - 1 < v then None
                  else Some (word_of_int v)))"

text \<open>\<^verbatim>\<open>strings.Split(s, sep)\<close> for a separator of one character.\<close>

fun strings_Split :: "string \<Rightarrow> char \<Rightarrow> string list" where
  "strings_Split [] sep = [[]]"
| "strings_Split (c # cs) sep =
     (if c = sep then [] # strings_Split cs sep
      else (let r = strings_Split cs sep in (c # hd r) # tl r))"

subsection \<open>\<^verbatim>\<open>incrementIP\<close> and \<^verbatim>\<open>decrementIP\<close> (lines 152-168)\<close>

text \<open>
  Both loops run \<^verbatim>\<open>i\<close> from \<^verbatim>\<open>len(ip) - 1\<close> down to 0 and stop at the first byte
  that did not wrap. The first argument of the loop functions is \<^verbatim>\<open>i + 1\<close>, so that
  0 stands for the loop condition \<^verbatim>\<open>i >= 0\<close> having failed. Every index is below
  \<^verbatim>\<open>len(ip)\<close>, so neither function can panic.
\<close>

fun incrementIP_loop :: "nat \<Rightarrow> IP \<Rightarrow> IP" where
  "incrementIP_loop 0 ip = ip"
| "incrementIP_loop (Suc i) ip =
     (let ip' = ip[i := ip ! i + 1]
      in if ip' ! i \<noteq> 0 then ip' else incrementIP_loop i ip')"

definition incrementIP :: "IP \<Rightarrow> IP" where
  "incrementIP ip = incrementIP_loop (length ip) ip"

fun decrementIP_loop :: "nat \<Rightarrow> IP \<Rightarrow> IP" where
  "decrementIP_loop 0 ip = ip"
| "decrementIP_loop (Suc i) ip =
     (let ip' = ip[i := ip ! i - 1]
      in if ip' ! i \<noteq> 255 then ip' else decrementIP_loop i ip')"

definition decrementIP :: "IP \<Rightarrow> IP" where
  "decrementIP ip = decrementIP_loop (length ip) ip"

subsection \<open>\<^verbatim>\<open>calculateTotalHosts\<close> (lines 170-175)\<close>

text \<open>
  In \<^verbatim>\<open>uint64(1<<(32-bitmask))\<close> the shift is not constant, so the untyped constant 1
  takes the type of the conversion and the shift is done in \<^verbatim>\<open>uint64\<close>; a shift
  count of 64 or more gives 0 and a negative count panics. The conversion
  \<^verbatim>\<open>uint64(32 - bitmask + 1)\<close> keeps the 64 bits of the \<^verbatim>\<open>int\<close>.
\<close>

definition calculateTotalHosts :: "go_int \<Rightarrow> error + uint64" where
  "calculateTotalHosts bitmask =
     (if 31 \<le>s bitmask then Inr (32 - bitmask + 1)
      else (let count = 32 - bitmask
            in if count <s 0 then Inl (Panic ''negative shift amount'')
               else Inr (push_bit (unat count) 1 - 2)))"

subsection \<open>\<^verbatim>\<open>parseCIDR\<close> (lines 73-85)\<close>

text \<open>
  \<^verbatim>\<open>fmt.Errorf("invalid CIDR: %v", err)\<close> puts the text of the library's error
  after the prefix. \<^verbatim>\<open>parts[0]\<close> and \<^verbatim>\<open>parts[1]\<close> would panic on a shorter slice.
\<close>

definition parseCIDR :: "string \<Rightarrow> error + (string \<times> string)" where
  "parseCIDR cidr =
     (if CHR ''/'' \<notin> set cidr then Inl (Error ''invalid CIDR format'')
      else (case net_ParseCIDR cidr of
              Inl (Error msg) \<Rightarrow> Inl (Error (''invalid CIDR: '' @ msg))
            | Inl (Panic msg) \<Rightarrow> Inl (Panic msg)
            | Inr _ \<Rightarrow>
                (let parts = strings_Split cidr CHR ''/''
                 in if length parts < 2 then Inl (Panic ''index out of range'')
                    else Inr (parts ! 0, parts ! 1))))"

subsection \<open>\<^verbatim>\<open>calculate\<close> (lines 87-150)\<close>

text \<open>
  The function is embedded in two steps, so that the properties below can speak of its
  local variables: \<open>calculate_values\<close> is lines 88 to 137, the checks and the values
  derived from the parsed network, collected in a record whose fields carry the names
  of the local variables; \<open>calculate\<close> adds lines 139 to 149, the list of rendered
  items. For the cases 32 and 31 the code lets \<^verbatim>\<open>hostmin\<close> and \<^verbatim>\<open>hostmax\<close> share the
  storage of \<^verbatim>\<open>network\<close> and \<^verbatim>\<open>broadcast\<close>; nothing is written to them afterwards,
  and in the default case \<^verbatim>\<open>incrementIP\<close> and \<^verbatim>\<open>decrementIP\<close> change fresh copies, so
  values are enough. The loop that fills \<^verbatim>\<open>broadcast\<close> indexes both slices up to 3 and
  would panic on a shorter one.
\<close>

record Values =
  ones :: go_int
  netmask :: IP
  wildcardIP :: IP
  network :: IP
  broadcast :: IP
  hostmin :: IP
  hostmax :: IP
  totalHosts :: uint64

definition calculate_values :: "string \<Rightarrow> string \<Rightarrow> error + Values" where
  "calculate_values ipStr bitmaskStr =
     (case strconv_Atoi bitmaskStr of
        None \<Rightarrow> Inl (Error ''invalid bitmask'')
      | Some bitmask \<Rightarrow>
          if bitmask <s 0 \<or> 32 <s bitmask then Inl (Error ''invalid bitmask'')
          else (case net_ParseCIDR (ipStr @ ''/'' @ fmt_int bitmask) of
                  Inl err \<Rightarrow> Inl (Error ''invalid IP address'')
                | Inr (ip, ipNet) \<Rightarrow>
                    if To4 (IPNet_IP ipNet) = [] then Inl (Error ''IPv6 is not supported'')
                    else (let ones = fst (IPMask_Size (IPNet_Mask ipNet));
                              netmask = To4 (IPNet_Mask ipNet);
                              wildcard = map (\<lambda>b. NOT b) (IPNet_Mask ipNet);
                              wildcardIP = To4 wildcard;
                              network = To4 (IPNet_IP ipNet)
                          in if length network < 4 \<or> length (IPNet_Mask ipNet) < 4
                             then Inl (Panic ''index out of range'')
                             else (let broadcast =
                                         fold (\<lambda>i b. b[i := b ! i OR NOT (IPNet_Mask ipNet ! i)])
                                           [0..<4] network;
                                       hostmin = (if ones = 32 then network
                                                  else if ones = 31 then network
                                                  else incrementIP network);
                                       hostmax = (if ones = 32 then network
                                                  else if ones = 31 then broadcast
                                                  else decrementIP broadcast)
                                   in case calculateTotalHosts ones of
                                        Inl e \<Rightarrow> Inl e
                                      | Inr hosts \<Rightarrow>
                                          Inr \<lparr>ones = ones, netmask = netmask,
                                               wildcardIP = wildcardIP, network = network,
                                               broadcast = broadcast, hostmin = hostmin,
                                               hostmax = hostmax, totalHosts = hosts\<rparr>))))"

definition calculate :: "string \<Rightarrow> string \<Rightarrow> error + ResultItem list" where
  "calculate ipStr bitmaskStr =
     (case calculate_values ipStr bitmaskStr of
        Inl e \<Rightarrow> Inl e
      | Inr v \<Rightarrow>
          Inr [\<lparr>Name = ''Address'', Value = ipStr\<rparr>,
               \<lparr>Name = ''Bitmask'', Value = fmt_int (ones v)\<rparr>,
               \<lparr>Name = ''Netmask'', Value = IP_String (netmask v)\<rparr>,
               \<lparr>Name = ''Wildcard'', Value = IP_String (wildcardIP v)\<rparr>,
               \<lparr>Name = ''Network'', Value = IP_String (network v)\<rparr>,
               \<lparr>Name = ''Broadcast'', Value = IP_String (broadcast v)\<rparr>,
               \<lparr>Name = ''Hostmin'', Value = IP_String (hostmin v)\<rparr>,
               \<lparr>Name = ''Hostmax'', Value = IP_String (hostmax v)\<rparr>,
               \<lparr>Name = ''Hosts'', Value = fmt_uint64 (totalHosts v)\<rparr>])"

subsection \<open>\<^verbatim>\<open>runConsoleMode\<close> (lines 53-71)\<close>

text \<open>
  What \<^verbatim>\<open>runConsoleMode\<close> computes from the program's argument before it prints: the
  error that it hands to \<^verbatim>\<open>log.Fatal\<close>, or the items that it prints. Printing and
  timing are left out.
\<close>

definition runConsoleMode :: "string \<Rightarrow> error + ResultItem list" where
  "runConsoleMode cidr =
     (case parseCIDR cidr of
        Inl e \<Rightarrow> Inl e
      | Inr (ipStr, bitmaskStr) \<Rightarrow> calculate ipStr bitmaskStr)"

subsection \<open>Reading a byte slice as a big-endian number\<close>

text \<open>The unsigned value of a byte slice, first byte most significant.\<close>

definition be_val :: "IP \<Rightarrow> nat" where
  "be_val ip = foldl (\<lambda>acc b. acc * 256 + unat b) 0 ip"

section \<open>Properties\<close>

subsection \<open>Bytes and big-endian values\<close>

lemma unat_byte_less: "unat (b::byte) < 256"
  using unsigned_less [of b, where 'a = nat] by simp

lemma be_val_snoc: "be_val (xs @ [b]) = be_val xs * 256 + unat b"
  by (simp add: be_val_def)

lemma be_val_bound: "be_val xs < 256 ^ length xs"
proof (induction xs rule: rev_induct)
  case Nil show ?case by (simp add: be_val_def)
next
  case (snoc b xs)
  have "unat b < 256" by (rule unat_byte_less)
  with snoc show ?case by (simp add: be_val_snoc)
qed

lemma incrementIP_loop_length: "length (incrementIP_loop k ip) = length ip"
  by (induction k arbitrary: ip) (auto simp: Let_def)

lemma incrementIP_loop_drop: "drop k (incrementIP_loop k ip) = drop k ip"
proof (induction k arbitrary: ip)
  case 0 show ?case by simp
next
  case (Suc k)
  have "drop (Suc k) (incrementIP_loop k (ip[k := ip ! k + 1])) = drop (Suc k) ip"
    using Suc [of "ip[k := ip ! k + 1]"]
    by (metis drop_Suc drop_update_cancel lessI tl_drop)
  then show ?case by (simp add: Let_def)
qed

lemma unat_byte_succ: "unat ((b::byte) + 1) = (unat b + 1) mod 256"
  by (simp add: unat_word_ariths)

lemma unat_byte_pred: "unat ((b::byte) - 1) = (unat b + 255) mod 256"
proof -
  have "b - 1 = b + 255" by simp
  then show ?thesis by (simp only: unat_word_ariths) simp
qed

lemma byte_succ_unat: "(b::byte) + 1 \<noteq> 0 \<Longrightarrow> unat (b + 1) = unat b + 1"
  using unat_byte_less [of b] by (auto simp: word_unat_eq_iff unat_byte_succ mod_Suc split: if_splits) 

lemma byte_succ_zero: "(b::byte) + 1 = 0 \<Longrightarrow> unat b = 255"
  using unat_byte_less [of b] by (auto simp: word_unat_eq_iff unat_byte_succ mod_Suc split: if_splits) 

lemma digit_bound:
  fixes v u N :: nat
  assumes "v < N" "u < 256"
  shows "v * 256 + u < N * 256"
proof -
  have "(v + 1) * 256 \<le> N * 256" using assms(1) by (intro mult_le_mono1) simp
  then show ?thesis using assms(2) by simp
qed

lemma carry_mod:
  fixes v :: nat
  shows "((v + 1) mod 256 ^ i) * 256 = (v * 256 + 255 + 1) mod 256 ^ Suc i"
proof -
  have "((v + 1) mod 256 ^ i) * 256 = ((v + 1) * 256) mod (256 ^ i * 256)"
    by (rule mult_mod_left)
  also have "(v + 1) * 256 = v * 256 + 255 + 1" by simp
  also have "(256::nat) ^ i * 256 = 256 ^ Suc i" by simp
  finally show ?thesis .
qed

lemma nth_after_loop:
  assumes "drop k xs = drop k ys" "k < length ys" "length xs = length ys"
  shows "xs ! k = ys ! k"
  using assms by (metis nth_via_drop Cons_nth_drop_Suc)

lemma incrementIP_loop_val:
  "k \<le> length ip \<Longrightarrow>
   be_val (take k (incrementIP_loop k ip)) = (be_val (take k ip) + 1) mod 256 ^ k"
proof (induction k arbitrary: ip)
  case 0 show ?case by (simp add: be_val_def)
next
  case (Suc i)
  then have i: "i < length ip" by simp
  let ?b = "ip ! i"
  let ?ip' = "ip[i := ?b + 1]"
  have bv: "be_val (take i ip) < 256 ^ i" using be_val_bound [of "take i ip"] i by simp
  show ?case
  proof (cases "?b + 1 = 0")
    case False
    then have ub: "unat (?b + 1) = unat ?b + 1" by (rule byte_succ_unat)
    have "unat (?b + 1) < 256" by (rule unat_byte_less)
    with ub have "unat ?b + 1 < 256" by simp
    then have small: "be_val (take i ip) * 256 + unat ?b + 1 < 256 ^ Suc i"
      using digit_bound [OF bv, of "unat ?b + 1"] by simp
    have "incrementIP_loop (Suc i) ip = ?ip'" using False i by (simp add: Let_def)
    then show ?thesis using i small ub
      by (simp add: take_Suc_conv_app_nth be_val_snoc)
  next
    case True
    then have ub: "unat ?b = 255" by (rule byte_succ_zero)
    have st: "incrementIP_loop (Suc i) ip = incrementIP_loop i ?ip'"
      using True i by (simp add: Let_def)
    have nth: "incrementIP_loop i ?ip' ! i = 0"
      using nth_after_loop [OF incrementIP_loop_drop [of i ?ip'], of ] i True
      by (simp add: incrementIP_loop_length)
    have "be_val (take i (incrementIP_loop i ?ip')) = (be_val (take i ?ip') + 1) mod 256 ^ i"
      using Suc.IH [of ?ip'] i by simp
    then have "be_val (take (Suc i) (incrementIP_loop i ?ip')) = ((be_val (take i ip) + 1) mod 256 ^ i) * 256"
      using i nth by (simp add: take_Suc_conv_app_nth be_val_snoc incrementIP_loop_length)
    also have "\<dots> = (be_val (take i ip) * 256 + 255 + 1) mod 256 ^ Suc i"
      by (rule carry_mod)
    finally show ?thesis using st ub i by (simp add: take_Suc_conv_app_nth be_val_snoc)
  qed
qed

lemma decrementIP_loop_length: "length (decrementIP_loop k ip) = length ip"
  by (induction k arbitrary: ip) (auto simp: Let_def)

lemma decrementIP_loop_drop: "drop k (decrementIP_loop k ip) = drop k ip"
proof (induction k arbitrary: ip)
  case 0 show ?case by simp
next
  case (Suc k)
  have "drop (Suc k) (decrementIP_loop k (ip[k := ip ! k - 1])) = drop (Suc k) ip"
    using Suc [of "ip[k := ip ! k - 1]"]
    by (metis drop_Suc drop_update_cancel lessI tl_drop)
  then show ?case by (simp add: Let_def)
qed

lemma byte_pred_unat: "(b::byte) - 1 \<noteq> 255 \<Longrightarrow> unat (b - 1) + 1 = unat b"
  using unat_byte_less [of b]
  by (auto simp: word_unat_eq_iff unat_byte_pred mod_if split: if_splits)

lemma byte_pred_max: "(b::byte) - 1 = 255 \<Longrightarrow> unat b = 0"
  using unat_byte_less [of b]
  by (auto simp: word_unat_eq_iff unat_byte_pred mod_if split: if_splits)

lemma borrow_mod:
  fixes v :: nat
  shows "((v + 256 ^ i - 1) mod 256 ^ i) * 256 + 255 = (v * 256 + 256 ^ Suc i - 1) mod 256 ^ Suc i"
proof -
  obtain m :: nat where m: "256 ^ i = Suc m"
    by (metis not0_implies_Suc power_not_zero zero_neq_numeral)
  have "v * 256 + 256 ^ Suc i - 1 = (v + 256 ^ i - 1) * 256 + 255"
    by (simp add: m)
  moreover have "((v + 256 ^ i - 1) * 256 + 255) mod (256 * 256 ^ i)
      = 256 * (((v + 256 ^ i - 1) * 256 + 255) div 256 mod 256 ^ i)
        + ((v + 256 ^ i - 1) * 256 + 255) mod 256"
    by (rule mod_mult2_eq)
  ultimately show ?thesis by simp
qed

lemma decrementIP_loop_val:
  "k \<le> length ip \<Longrightarrow>
   be_val (take k (decrementIP_loop k ip)) = (be_val (take k ip) + 256 ^ k - 1) mod 256 ^ k"
proof (induction k arbitrary: ip)
  case 0 show ?case by (simp add: be_val_def)
next
  case (Suc i)
  then have i: "i < length ip" by simp
  let ?b = "ip ! i"
  let ?ip' = "ip[i := ?b - 1]"
  have bv: "be_val (take i ip) < 256 ^ i" using be_val_bound [of "take i ip"] i by simp
  show ?case
  proof (cases "?b - 1 = 255")
    case False
    then have ub: "unat (?b - 1) + 1 = unat ?b" by (rule byte_pred_unat)
    have "be_val (take i ip) * 256 + unat ?b < 256 ^ i * 256"
      using digit_bound [OF bv unat_byte_less] .
    then have small: "be_val (take i ip) * 256 + unat (?b - 1) < 256 ^ Suc i"
      using ub by simp
    have "be_val (take i ip) * 256 + unat ?b + 256 ^ Suc i - 1
        = (be_val (take i ip) * 256 + unat (?b - 1)) + 256 ^ Suc i"
      using ub by simp
    then have "(be_val (take i ip) * 256 + unat ?b + 256 ^ Suc i - 1) mod 256 ^ Suc i
        = be_val (take i ip) * 256 + unat (?b - 1)"
      using small by (simp only: mod_add_self2 mod_less)
    moreover have "decrementIP_loop (Suc i) ip = ?ip'" using False i by (simp add: Let_def)
    ultimately show ?thesis using i
      by (simp add: take_Suc_conv_app_nth be_val_snoc)
  next
    case True
    then have ub: "unat ?b = 0" by (rule byte_pred_max)
    have st: "decrementIP_loop (Suc i) ip = decrementIP_loop i ?ip'"
      using True i by (simp add: Let_def)
    have nth: "decrementIP_loop i ?ip' ! i = 255"
      using nth_after_loop [OF decrementIP_loop_drop [of i ?ip']] i True
      by (simp add: decrementIP_loop_length)
    have "be_val (take i (decrementIP_loop i ?ip')) = (be_val (take i ?ip') + 256 ^ i - 1) mod 256 ^ i"
      using Suc.IH [of ?ip'] i by simp
    then have "be_val (take (Suc i) (decrementIP_loop i ?ip'))
        = ((be_val (take i ip) + 256 ^ i - 1) mod 256 ^ i) * 256 + 255"
      using i nth by (simp add: take_Suc_conv_app_nth be_val_snoc decrementIP_loop_length)
    also have "\<dots> = (be_val (take i ip) * 256 + 256 ^ Suc i - 1) mod 256 ^ Suc i"
      by (rule borrow_mod)
    finally show ?thesis using st ub i by (simp add: take_Suc_conv_app_nth be_val_snoc)
  qed
qed

lemma be_val_inj: "length xs = length ys \<Longrightarrow> be_val xs = be_val ys \<Longrightarrow> xs = ys"
proof (induction xs arbitrary: ys rule: rev_induct)
  case Nil then show ?case by simp
next
  case (snoc x xs)
  then obtain y ys' where ys: "ys = ys' @ [y]"
    by (cases ys rule: rev_cases) auto
  from snoc.prems ys have len: "length xs = length ys'" by simp
  from snoc.prems ys have eq: "be_val xs * 256 + unat x = be_val ys' * 256 + unat y"
    by (simp add: be_val_snoc)
  have "(be_val xs * 256 + unat x) div 256 = be_val xs"
       "(be_val ys' * 256 + unat y) div 256 = be_val ys'"
       "(be_val xs * 256 + unat x) mod 256 = unat x"
       "(be_val ys' * 256 + unat y) mod 256 = unat y"
    using unat_byte_less [of x] unat_byte_less [of y] by simp_all
  with eq have "be_val xs = be_val ys'" "unat x = unat y" by metis+
  with snoc.IH [OF len] ys show ?case by (simp add: word_unat_eq_iff)
qed

lemma incrementIP_val: "be_val (incrementIP ip) = (be_val ip + 1) mod 256 ^ length ip"
  using incrementIP_loop_val [of "length ip" ip]
  by (simp add: incrementIP_def incrementIP_loop_length)

lemma decrementIP_val:
  "be_val (decrementIP ip) = (be_val ip + 256 ^ length ip - 1) mod 256 ^ length ip"
  using decrementIP_loop_val [of "length ip" ip]
  by (simp add: decrementIP_def decrementIP_loop_length)

lemma length_incrementIP: "length (incrementIP ip) = length ip"
  by (simp add: incrementIP_def incrementIP_loop_length)

lemma length_decrementIP: "length (decrementIP ip) = length ip"
  by (simp add: decrementIP_def decrementIP_loop_length)

lemma succ_pred_mod:
  fixes v N :: nat
  assumes "v < N"
  shows "((v + 1) mod N + N - 1) mod N = v" and "((v + N - 1) mod N + 1) mod N = v"
proof -
  show "((v + 1) mod N + N - 1) mod N = v"
  proof (cases "v + 1 = N")
    case True then show ?thesis using assms by simp
  next
    case False
    then have "v + 1 < N" using assms by simp
    then show ?thesis by simp
  qed
  show "((v + N - 1) mod N + 1) mod N = v"
  proof (cases "v = 0")
    case True then show ?thesis using assms by (simp add: mod_Suc)
  next
    case False
    then have "v + N - 1 = (v - 1) + N" "v - 1 < N" using assms by simp_all
    then have "(v + N - 1) mod N = v - 1" by (simp only: mod_add_self2 mod_less)
    then show ?thesis using False assms by simp
  qed
qed

lemma decrementIP_incrementIP: "decrementIP (incrementIP ip) = ip"
proof (rule be_val_inj)
  show "length (decrementIP (incrementIP ip)) = length ip"
    by (simp add: length_incrementIP length_decrementIP)
  show "be_val (decrementIP (incrementIP ip)) = be_val ip"
    using succ_pred_mod(1) [OF be_val_bound [of ip]]
    by (simp add: decrementIP_val incrementIP_val length_incrementIP)
qed

lemma incrementIP_decrementIP: "incrementIP (decrementIP ip) = ip"
proof (rule be_val_inj)
  show "length (incrementIP (decrementIP ip)) = length ip"
    by (simp add: length_incrementIP length_decrementIP)
  show "be_val (incrementIP (decrementIP ip)) = be_val ip"
    using succ_pred_mod(2) [OF be_val_bound [of ip]]
    by (simp add: decrementIP_val incrementIP_val length_decrementIP)
qed


text \<open>
  Claim C9. For every 4-byte value, \<open>incrementIP\<close> yields the value plus one modulo
  \<open>2 ^ 32\<close> and \<open>decrementIP\<close> the value minus one modulo \<open>2 ^ 32\<close>; both return a
  4-byte slice for every input (they are total functions without an error case, and
  the wrap-around at 255.255.255.255 and at 0.0.0.0 is included), and each undoes the
  other.
\<close>

theorem incrementIP_decrementIP_mod:
  assumes "length ip = 4"
  shows "be_val (incrementIP ip) = (be_val ip + 1) mod 2 ^ 32
       \<and> int (be_val (decrementIP ip)) = (int (be_val ip) - 1) mod 2 ^ 32
       \<and> length (incrementIP ip) = 4 \<and> length (decrementIP ip) = 4
       \<and> decrementIP (incrementIP ip) = ip \<and> incrementIP (decrementIP ip) = ip"
proof -
  have inc: "be_val (incrementIP ip) = (be_val ip + 1) mod 2 ^ 32"
    using assms by (simp add: incrementIP_val)
  have "int (be_val (decrementIP ip)) = int ((be_val ip + 2 ^ 32 - 1) mod 2 ^ 32)"
    using assms by (simp add: decrementIP_val)
  also have "\<dots> = (int (be_val ip) + 2 ^ 32 - 1) mod 2 ^ 32"
    by (simp add: zmod_int of_nat_diff)
  also have "\<dots> = (int (be_val ip) - 1) mod 2 ^ 32"
    by (metis add_diff_eq diff_add_eq mod_add_self2)
  finally have dec: "int (be_val (decrementIP ip)) = (int (be_val ip) - 1) mod 2 ^ 32" .
  show ?thesis
    using inc dec assms
    by (simp add: length_incrementIP length_decrementIP
        decrementIP_incrementIP incrementIP_decrementIP)
qed

theorem incrementIP_decrementIP_mod_witness:
  "length [255, 255, 255, 255 :: byte] = 4
   \<and> be_val (incrementIP [255, 255, 255, 255]) = 0
   \<and> int (be_val (decrementIP [0, 0, 0, 0])) = 4294967295
   \<and> decrementIP (incrementIP [255, 255, 255, 255]) = [255, 255, 255, 255]
   \<and> incrementIP [255, 255, 255, 255] = [0, 0, 0, 0]
   \<and> decrementIP [0, 0, 0, 0] = [255, 255, 255, 255]"
  using incrementIP_decrementIP_mod [of "[255, 255, 255, 255]"]
    incrementIP_decrementIP_mod [of "[0, 0, 0, 0]"]
  by (simp add: be_val_def incrementIP_def decrementIP_def)

subsection \<open>The host count\<close>

text \<open>
  Claim C2. For every prefix length from 0 to 32, \<open>calculateTotalHosts\<close> returns a
  count (it does not panic), and the count is \<open>2 ^ (32 - p) - 2\<close> up to 30, 2 for 31
  and 1 for 32. The count is read as an unbounded natural number, so for 0 it is
  4294967294 and nothing has wrapped around.
\<close>

theorem calculateTotalHosts_count:
  assumes "p \<le> 32"
  shows "\<exists>h. calculateTotalHosts (of_nat p) = Inr h \<and>
          unat h = (if p \<le> 30 then 2 ^ (32 - p) - 2 else if p = 31 then 2 else 1)"
proof -
  have "\<forall>p \<in> set [0..<33]. \<exists>h. calculateTotalHosts (of_nat p) = Inr h \<and>
          unat h = (if p \<le> 30 then 2 ^ (32 - p) - 2 else if p = 31 then 2 else 1)"
    by (simp add: upt_rec calculateTotalHosts_def word_sle_eq word_sless_alt)
  with assms show ?thesis by simp
qed

theorem calculateTotalHosts_count_witness:
  "(0 :: nat) \<le> 32 \<and> calculateTotalHosts 0 = Inr 4294967294
   \<and> calculateTotalHosts 31 = Inr 2 \<and> calculateTotalHosts 32 = Inr 1"
  using calculateTotalHosts_count [of 0] calculateTotalHosts_count [of 31]
    calculateTotalHosts_count [of 32]
  by (simp add: calculateTotalHosts_def word_sle_eq word_sless_alt)

end
